theory Spec2Isabelle
  imports Complex_Main "HOL-Library.Sublist"
begin

section \<open>Go primitives used by the program\<close>

text \<open>
  Go strings are byte sequences; \<open>string\<close> (a list of 8-bit characters) is the same
  thing. The program runs where \<open>int\<close> is 64 bits wide.
\<close>

subsection \<open>String slicing\<close>

text \<open>
  \<open>s[lo:hi]\<close> panics unless \<open>lo \<le> hi \<le> len(s)\<close>; \<open>None\<close> is the panic.
\<close>

definition slice_str :: "string \<Rightarrow> nat \<Rightarrow> nat \<Rightarrow> string option" where
  "slice_str s lo hi =
     (if lo \<le> hi \<and> hi \<le> length s then Some (take (hi - lo) (drop lo s)) else None)"

subsection \<open>strconv.Itoa\<close>

definition digit_char :: "nat \<Rightarrow> char" where
  "digit_char d = ''0123456789'' ! d"

fun dec_digits :: "nat \<Rightarrow> string" where
  "dec_digits n = (if n < 10 then [digit_char n] else dec_digits (n div 10) @ [digit_char (n mod 10)])"

declare dec_digits.simps [simp del]

definition Itoa :: "int \<Rightarrow> string" where
  "Itoa i = (if i < 0 then CHR ''-'' # dec_digits (nat (- i)) else dec_digits (nat i))"

subsection \<open>float64 arithmetic and conversion to int\<close>

text \<open>
  A finite float64 is the rational number it denotes. An arithmetic result is the exact
  result rounded to the nearest float64, ties to even (53 significant bits, least exponent
  \<open>-1074\<close>); \<open>None\<close> is an infinity. The sign of a zero is not kept: no operation of the
  program tells the two zeros apart.
\<close>

fun nbits :: "nat \<Rightarrow> nat" where
  "nbits n = (if n = 0 then 0 else Suc (nbits (n div 2)))"

declare nbits.simps [simp del]

definition pow2 :: "int \<Rightarrow> rat" where
  "pow2 e = (if 0 \<le> e then 2 ^ nat e else 1 / 2 ^ nat (- e))"

text \<open>
  The integer part of the binary logarithm of a positive rational: from the bit length of
  its integer part when it is at least 1, and of its reciprocal rounded up otherwise.
\<close>

definition ilog2 :: "rat \<Rightarrow> int" where
  "ilog2 a =
     (if 1 \<le> a then int (nbits (nat \<lfloor>a\<rfloor>)) - 1
      else - int (nbits (nat (\<lceil>1 / a\<rceil> - 1))))"

definition round_half_even :: "rat \<Rightarrow> int" where
  "round_half_even x =
     (let f = \<lfloor>x\<rfloor>; d = x - of_int f
      in if d < 1 / 2 then f else if 1 / 2 < d then f + 1 else if even f then f else f + 1)"

definition float64_round :: "rat \<Rightarrow> rat option" where
  "float64_round x =
     (if x = 0 then Some 0
      else let a = \<bar>x\<bar>;
               e = max (ilog2 a) (- 1022);
               u = pow2 (e - 52);
               r = of_int (round_half_even (a / u)) * u
           in if pow2 1024 \<le> r then None else Some (sgn x * r))"

definition float64_mul :: "rat \<Rightarrow> rat \<Rightarrow> rat option" where
  "float64_mul a b = float64_round (a * b)"

definition trunc_rat :: "rat \<Rightarrow> int" where
  "trunc_rat x = (if 0 \<le> x then \<lfloor>x\<rfloor> else \<lceil>x\<rceil>)"

definition in_int64 :: "int \<Rightarrow> bool" where
  "in_int64 i = (- (2 ^ 63) \<le> i \<and> i < 2 ^ 63)"

text \<open>
  \<open>int(f)\<close> truncates toward zero. When the truncated value does not fit an \<open>int\<close>, or
  \<open>f\<close> is an infinity, the language leaves the result to the implementation; the 64-bit
  x86 conversion instruction the compiler emits yields the least \<open>int\<close> there.
\<close>

definition int_of_float64 :: "rat option \<Rightarrow> int" where
  "int_of_float64 f =
     (case f of
        None \<Rightarrow> - (2 ^ 63)
      | Some x \<Rightarrow> if in_int64 (trunc_rat x) then trunc_rat x else - (2 ^ 63))"

section \<open>Data model\<close>

text \<open>The error response of the service.\<close>

record tpError =
  Status :: int
  Id :: string
  Code :: string
  Message :: string

text \<open>
  One element of \<open>tpMeasurement\<close>. The scalar fields are kept; the fields of struct,
  slice and \<open>time.Time\<close> type (\<open>Payload\<close>, \<open>Time\<close>, \<open>Annotations\<close>, \<open>Client\<close>,
  \<open>Devicemanufacturers\<close>, \<open>Devicetags\<close>) are never read by the program and appear only
  in the decoder's type checks below.
\<close>

record measurement =
  Conversionoffset :: int
  Deviceid :: string
  Devicetime :: string
  GUID :: string
  ID :: string
  Timezoneoffset :: int
  Type :: string
  Units :: string
  Uploadid :: string
  Value :: rat
  Byuser :: string
  Computertime :: string
  Devicemodel :: string
  Deviceserialnumber :: string
  Timeprocessing :: string
  Timezone :: string
  Version :: string

type_synonym tpMeasurement = "measurement list"

record Smbg =
  smbgDate :: string
  smbgTime :: string
  smbgValue :: string

section \<open>checkDateRanges\<close>

definition datetail :: string where
  "datetail = ''T01:00:00.000Z''"

definition checkDateRanges :: "string \<Rightarrow> string \<Rightarrow> string" where
  "checkDateRanges sdate edate =
     (let qs = '''' in
      if sdate = '''' \<and> edate = '''' then qs
      else
        let qs = (if sdate \<noteq> '''' then qs @ ''&startDate='' @ sdate @ datetail else qs);
            qs = (if edate \<noteq> '''' then qs @ ''&endDate='' @ edate @ datetail else qs)
        in qs)"

section \<open>The extraction loop of decodeTidepoolData\<close>

text \<open>
  The body of the \<open>for\<close> loop for an element of type \<open>smbg\<close>: the two slices, in the
  order the code takes them, then the conversion. \<open>None\<close> is the panic of a slice out of
  range.
\<close>

definition measvals :: "measurement \<Rightarrow> string" where
  "measvals m = Itoa (int_of_float64 (float64_mul (Value m) 18))"

definition smbg_of :: "measurement \<Rightarrow> Smbg option" where
  "smbg_of m =
     (let measdt = Devicetime m in
      case slice_str measdt 0 10 of
        None \<Rightarrow> None
      | Some measDate \<Rightarrow>
          (case slice_str measdt 11 19 of
             None \<Rightarrow> None
           | Some measTime \<Rightarrow>
               Some \<lparr>smbgDate = measDate, smbgTime = measTime, smbgValue = measvals m\<rparr>))"

text \<open>
  The loop over \<open>result\<close>, with the slice \<open>smbgs\<close> as accumulator; \<open>None\<close> is a panic.
\<close>

fun extract_loop :: "tpMeasurement \<Rightarrow> Smbg list \<Rightarrow> Smbg list option" where
  "extract_loop [] smbgs = Some smbgs"
| "extract_loop (m # ms) smbgs =
     (if Type m \<noteq> ''smbg'' then extract_loop ms smbgs
      else case smbg_of m of
             None \<Rightarrow> None
           | Some psmbg \<Rightarrow> extract_loop ms (smbgs @ [psmbg]))"

definition extract_smbgs :: "tpMeasurement \<Rightarrow> Smbg list option" where
  "extract_smbgs result = extract_loop result []"

section \<open>encoding/json\<close>

subsection \<open>JSON documents\<close>

text \<open>
  A number keeps the parts of its literal: the decoder hands the literal to
  \<open>strconv.ParseInt\<close> or \<open>strconv.ParseFloat\<close> according to the type of the target.
\<close>

datatype number = Number (num_neg: bool) (num_int: nat) (num_frac: "nat list") (num_exp: "int option")

datatype json =
    JNull
  | JBool bool
  | JNum number
  | JStr string
  | JArr "json list"
  | JObj "(string \<times> json) list"

subsection \<open>Scanning bytes\<close>

datatype token =
    TLBrace | TRBrace | TLBrack | TRBrack | TColon | TComma
  | TStr string | TNum number | TTrue | TFalse | TNull

text \<open>A string literal is read as raw bytes and \<open>\u\<close> escapes (UTF-16 code units).\<close>

datatype sitem = Raw char | Unit nat

definition is_ws :: "char \<Rightarrow> bool" where
  "is_ws c = (of_char c \<in> {0x20, 0x09, 0x0D, 0x0A :: nat})"

definition is_digit :: "char \<Rightarrow> bool" where
  "is_digit c = (0x30 \<le> (of_char c :: nat) \<and> (of_char c :: nat) \<le> 0x39)"

definition digit_val :: "char \<Rightarrow> nat" where
  "digit_val c = of_char c - 0x30"

definition hex_val :: "char \<Rightarrow> nat option" where
  "hex_val c =
     (let n = of_char c :: nat in
      if 0x30 \<le> n \<and> n \<le> 0x39 then Some (n - 0x30)
      else if 0x61 \<le> n \<and> n \<le> 0x66 then Some (n - 0x61 + 10)
      else if 0x41 \<le> n \<and> n \<le> 0x46 then Some (n - 0x41 + 10)
      else None)"

definition is_num_char :: "char \<Rightarrow> bool" where
  "is_num_char c = (is_digit c \<or> c \<in> {CHR ''-'', CHR ''+'', CHR ''.'', CHR ''e'', CHR ''E''})"

definition is_letter :: "char \<Rightarrow> bool" where
  "is_letter c = (0x61 \<le> (of_char c :: nat) \<and> (of_char c :: nat) \<le> 0x7A)"

definition nat_of_digits :: "nat list \<Rightarrow> nat" where
  "nat_of_digits ds = foldl (\<lambda>a d. 10 * a + d) 0 ds"

text \<open>
  The number grammar: an optional minus, an integer part without a leading zero, an
  optional fraction, an optional exponent.
\<close>

definition number_of_literal :: "string \<Rightarrow> number option" where
  "number_of_literal s =
     (let neg = (s \<noteq> [] \<and> hd s = CHR ''-'');
          s1 = (if neg then tl s else s);
          ip = takeWhile is_digit s1;
          s2 = dropWhile is_digit s1;
          has_frac = (s2 \<noteq> [] \<and> hd s2 = CHR ''.'');
          fr = (if has_frac then takeWhile is_digit (tl s2) else []);
          s3 = (if has_frac then dropWhile is_digit (tl s2) else s2);
          has_exp = (s3 \<noteq> [] \<and> hd s3 \<in> {CHR ''e'', CHR ''E''});
          s4 = (if has_exp then tl s3 else s3);
          eneg = (has_exp \<and> s4 \<noteq> [] \<and> hd s4 = CHR ''-'');
          s5 = (if has_exp \<and> s4 \<noteq> [] \<and> hd s4 \<in> {CHR ''-'', CHR ''+''} then tl s4 else s4);
          ex = (if has_exp then takeWhile is_digit s5 else []);
          s6 = (if has_exp then dropWhile is_digit s5 else s5)
      in if ip = [] \<or> (length ip > 1 \<and> hd ip = CHR ''0'') \<or> (has_frac \<and> fr = [])
            \<or> (has_exp \<and> ex = []) \<or> s6 \<noteq> []
         then None
         else Some (Number neg (nat_of_digits (map digit_val ip)) (map digit_val fr)
                      (if has_exp
                       then Some (if eneg then - int (nat_of_digits (map digit_val ex))
                                  else int (nat_of_digits (map digit_val ex)))
                       else None)))"

definition word_token :: "string \<Rightarrow> token option" where
  "word_token w =
     (if w = ''true'' then Some TTrue
      else if w = ''false'' then Some TFalse
      else if w = ''null'' then Some TNull
      else None)"

text \<open>
  What may follow a number or a literal name: white space, a comma, or a closing bracket
  or brace. Every other byte there is a syntax error.
\<close>

definition after_scalar :: "char \<Rightarrow> token list option" where
  "after_scalar c =
     (if is_ws c then Some []
      else if c = CHR '','' then Some [TComma]
      else if c = CHR '']'' then Some [TRBrack]
      else if c = CHR ''}'' then Some [TRBrace]
      else None)"

definition escape_byte :: "char \<Rightarrow> char option" where
  "escape_byte c =
     (let n = of_char c :: nat in
      if n = 0x22 \<or> n = 0x5C \<or> n = 0x2F then Some c
      else if c = CHR ''b'' then Some (char_of (0x08 :: nat))
      else if c = CHR ''f'' then Some (char_of (0x0C :: nat))
      else if c = CHR ''n'' then Some (char_of (0x0A :: nat))
      else if c = CHR ''r'' then Some (char_of (0x0D :: nat))
      else if c = CHR ''t'' then Some (char_of (0x09 :: nat))
      else None)"

subsubsection \<open>Unquoting a string literal\<close>

definition replacement :: string where
  "replacement = map char_of [0xEF, 0xBF, 0xBD :: nat]"

definition utf8_encode :: "nat \<Rightarrow> string" where
  "utf8_encode r =
     map char_of
       (if r < 0x80 then [r]
        else if r < 0x800 then [0xC0 + r div 64, 0x80 + r mod 64]
        else if r < 0x10000 then [0xE0 + r div 4096, 0x80 + r div 64 mod 64, 0x80 + r mod 64]
        else [0xF0 + r div 262144, 0x80 + r div 4096 mod 64, 0x80 + r div 64 mod 64,
              0x80 + r mod 64])"

definition is_cont :: "nat \<Rightarrow> bool" where
  "is_cont b = (0x80 \<le> b \<and> b \<le> 0xBF)"

text \<open>
  The length of the well-formed UTF-8 sequence at the head of the bytes, \<open>0\<close> when there
  is none.
\<close>

fun rune_len :: "nat list \<Rightarrow> nat" where
  "rune_len [] = 0"
| "rune_len (b0 # bs) =
     (if 0xC2 \<le> b0 \<and> b0 \<le> 0xDF then
        (case bs of b1 # _ \<Rightarrow> if is_cont b1 then 2 else 0 | _ \<Rightarrow> 0)
      else if 0xE0 \<le> b0 \<and> b0 \<le> 0xEF then
        (case bs of
           b1 # b2 # _ \<Rightarrow>
             if (if b0 = 0xE0 then 0xA0 \<le> b1 \<and> b1 \<le> 0xBF
                 else if b0 = 0xED then 0x80 \<le> b1 \<and> b1 \<le> 0x9F
                 else is_cont b1) \<and> is_cont b2
             then 3 else 0
         | _ \<Rightarrow> 0)
      else if 0xF0 \<le> b0 \<and> b0 \<le> 0xF4 then
        (case bs of
           b1 # b2 # b3 # _ \<Rightarrow>
             if (if b0 = 0xF0 then 0x90 \<le> b1 \<and> b1 \<le> 0xBF
                 else if b0 = 0xF4 then 0x80 \<le> b1 \<and> b1 \<le> 0x8F
                 else is_cont b1) \<and> is_cont b2 \<and> is_cont b3
             then 4 else 0
         | _ \<Rightarrow> 0)
      else 0)"

fun raw_codes :: "sitem list \<Rightarrow> nat list" where
  "raw_codes (Raw c # r) = of_char c # raw_codes r"
| "raw_codes _ = []"

definition is_surrogate :: "nat \<Rightarrow> bool" where
  "is_surrogate u = (0xD800 \<le> u \<and> u < 0xE000)"

definition unit_bytes :: "nat \<Rightarrow> string" where
  "unit_bytes u = (if is_surrogate u then replacement else utf8_encode u)"

text \<open>
  \<open>unquote\<close>: a surrogate pair of escapes is one rune, a lone surrogate and an ill-formed
  byte are replaced by U+FFFD. The first argument counts the continuation bytes of a
  well-formed sequence still to be copied.
\<close>

fun unquote_items :: "nat \<Rightarrow> sitem list \<Rightarrow> string" where
  "unquote_items k [] = []"
| "unquote_items k (Raw c # r) =
     (if 0 < k then c # unquote_items (k - 1) r
      else if (of_char c :: nat) < 0x80 then c # unquote_items 0 r
      else let n = rune_len (of_char c # raw_codes (take 3 r))
           in if n = 0 then replacement @ unquote_items 0 r
              else c # unquote_items (n - 1) r)"
| "unquote_items k (Unit hi # Unit lo # r) =
     (if 0xD800 \<le> hi \<and> hi < 0xDC00 \<and> 0xDC00 \<le> lo \<and> lo < 0xE000
      then utf8_encode (0x10000 + (hi - 0xD800) * 0x400 + (lo - 0xDC00)) @ unquote_items 0 r
      else unit_bytes hi @ unquote_items 0 (Unit lo # r))"
| "unquote_items k (Unit u # r) = unit_bytes u @ unquote_items 0 r"

definition unquote :: "sitem list \<Rightarrow> string" where
  "unquote items = unquote_items 0 items"

subsubsection \<open>The scanner\<close>

datatype lmode =
    Idle
  | InStr "sitem list"
  | InEsc "sitem list"
  | InHex "sitem list" "nat list"
  | InNum string
  | InWord string

text \<open>
  One pass over the bytes; the accumulators are reversed. \<open>None\<close> is a syntax error.
\<close>

definition lex_end :: "lmode \<Rightarrow> token list \<Rightarrow> token list option" where
  "lex_end m ts =
     (case m of
        Idle \<Rightarrow> Some (rev ts)
      | InNum acc \<Rightarrow>
          (case number_of_literal (rev acc) of None \<Rightarrow> None | Some n \<Rightarrow> Some (rev (TNum n # ts)))
      | InWord acc \<Rightarrow>
          (case word_token (rev acc) of None \<Rightarrow> None | Some t \<Rightarrow> Some (rev (t # ts)))
      | _ \<Rightarrow> None)"

fun lex :: "lmode \<Rightarrow> token list \<Rightarrow> string \<Rightarrow> token list option" where
  "lex m ts [] = lex_end m ts"
| "lex m ts (c # cs) =
     (case m of
        Idle \<Rightarrow>
          if is_ws c then lex Idle ts cs
          else if c = CHR ''{'' then lex Idle (TLBrace # ts) cs
          else if c = CHR ''}'' then lex Idle (TRBrace # ts) cs
          else if c = CHR ''['' then lex Idle (TLBrack # ts) cs
          else if c = CHR '']'' then lex Idle (TRBrack # ts) cs
          else if c = CHR '':'' then lex Idle (TColon # ts) cs
          else if c = CHR '','' then lex Idle (TComma # ts) cs
          else if (of_char c :: nat) = 0x22 then lex (InStr []) ts cs
          else if c = CHR ''-'' \<or> is_digit c then lex (InNum [c]) ts cs
          else if is_letter c then lex (InWord [c]) ts cs
          else None
      | InStr items \<Rightarrow>
          if (of_char c :: nat) = 0x22 then lex Idle (TStr (unquote (rev items)) # ts) cs
          else if (of_char c :: nat) = 0x5C then lex (InEsc items) ts cs
          else if (of_char c :: nat) < 0x20 then None
          else lex (InStr (Raw c # items)) ts cs
      | InEsc items \<Rightarrow>
          if c = CHR ''u'' then lex (InHex items []) ts cs
          else (case escape_byte c of
                  None \<Rightarrow> None
                | Some b \<Rightarrow> lex (InStr (Raw b # items)) ts cs)
      | InHex items hs \<Rightarrow>
          (case hex_val c of
             None \<Rightarrow> None
           | Some h \<Rightarrow>
               if length hs = 3
               then lex (InStr (Unit (foldl (\<lambda>a d. 16 * a + d) 0 (rev (h # hs))) # items)) ts cs
               else lex (InHex items (h # hs)) ts cs)
      | InNum acc \<Rightarrow>
          if is_num_char c then lex (InNum (c # acc)) ts cs
          else (case after_scalar c of
                  None \<Rightarrow> None
                | Some follow \<Rightarrow>
                    (case number_of_literal (rev acc) of
                       None \<Rightarrow> None
                     | Some n \<Rightarrow> lex Idle (follow @ TNum n # ts) cs))
      | InWord acc \<Rightarrow>
          if is_letter c then lex (InWord (c # acc)) ts cs
          else (case after_scalar c of
                  None \<Rightarrow> None
                | Some follow \<Rightarrow>
                    (case word_token (rev acc) of
                       None \<Rightarrow> None
                     | Some t \<Rightarrow> lex Idle (follow @ t # ts) cs)))"

subsubsection \<open>Building the document\<close>

datatype frame =
    InArr "json list"
  | ObjKey "(string \<times> json) list"
  | ObjVal "(string \<times> json) list" string

datatype pstate =
    PValue | PArr0 | PArrNext | PObj0 | PObjNext | PKey | PColon string | PDone json

definition maxNestingDepth :: nat where
  "maxNestingDepth = 10000"

text \<open>A finished value goes to the innermost open array or object.\<close>

definition complete :: "json \<Rightarrow> frame list \<Rightarrow> (pstate \<times> frame list) option" where
  "complete v st =
     (case st of
        [] \<Rightarrow> Some (PDone v, [])
      | InArr items # st' \<Rightarrow> Some (PArrNext, InArr (v # items) # st')
      | ObjVal ms k # st' \<Rightarrow> Some (PObjNext, ObjKey ((k, v) # ms) # st')
      | ObjKey ms # st' \<Rightarrow> None)"

definition begin_value :: "token \<Rightarrow> frame list \<Rightarrow> (pstate \<times> frame list) option" where
  "begin_value t st =
     (case t of
        TStr s \<Rightarrow> complete (JStr s) st
      | TNum n \<Rightarrow> complete (JNum n) st
      | TTrue \<Rightarrow> complete (JBool True) st
      | TFalse \<Rightarrow> complete (JBool False) st
      | TNull \<Rightarrow> complete JNull st
      | TLBrack \<Rightarrow> if length st < maxNestingDepth then Some (PArr0, InArr [] # st) else None
      | TLBrace \<Rightarrow> if length st < maxNestingDepth then Some (PObj0, ObjKey [] # st) else None
      | _ \<Rightarrow> None)"

definition close_array :: "frame list \<Rightarrow> (pstate \<times> frame list) option" where
  "close_array st =
     (case st of InArr items # st' \<Rightarrow> complete (JArr (rev items)) st' | _ \<Rightarrow> None)"

definition close_object :: "frame list \<Rightarrow> (pstate \<times> frame list) option" where
  "close_object st =
     (case st of ObjKey ms # st' \<Rightarrow> complete (JObj (rev ms)) st' | _ \<Rightarrow> None)"

definition pstep :: "pstate \<Rightarrow> frame list \<Rightarrow> token \<Rightarrow> (pstate \<times> frame list) option" where
  "pstep s st t =
     (case s of
        PValue \<Rightarrow> begin_value t st
      | PArr0 \<Rightarrow> (case t of TRBrack \<Rightarrow> close_array st | _ \<Rightarrow> begin_value t st)
      | PArrNext \<Rightarrow>
          (case t of TRBrack \<Rightarrow> close_array st | TComma \<Rightarrow> Some (PValue, st) | _ \<Rightarrow> None)
      | PObj0 \<Rightarrow>
          (case t of TRBrace \<Rightarrow> close_object st | TStr k \<Rightarrow> Some (PColon k, st) | _ \<Rightarrow> None)
      | PObjNext \<Rightarrow>
          (case t of TRBrace \<Rightarrow> close_object st | TComma \<Rightarrow> Some (PKey, st) | _ \<Rightarrow> None)
      | PKey \<Rightarrow> (case t of TStr k \<Rightarrow> Some (PColon k, st) | _ \<Rightarrow> None)
      | PColon k \<Rightarrow>
          (case t of
             TColon \<Rightarrow> (case st of ObjKey ms # st' \<Rightarrow> Some (PValue, ObjVal ms k # st') | _ \<Rightarrow> None)
           | _ \<Rightarrow> None)
      | PDone v \<Rightarrow> None)"

fun build :: "pstate \<Rightarrow> frame list \<Rightarrow> token list \<Rightarrow> json option" where
  "build s st [] = (case s of PDone v \<Rightarrow> Some v | _ \<Rightarrow> None)"
| "build s st (t # ts) =
     (case pstep s st t of None \<Rightarrow> None | Some (s', st') \<Rightarrow> build s' st' ts)"

text \<open>The syntax check of \<open>json.Unmarshal\<close>: \<open>None\<close> is a \<open>SyntaxError\<close>.\<close>

definition parse_json :: "string \<Rightarrow> json option" where
  "parse_json data = (case lex Idle [] data of None \<Rightarrow> None | Some ts \<Rightarrow> build PValue [] ts)"

subsection \<open>Decoding numbers\<close>

definition pow10 :: "int \<Rightarrow> rat" where
  "pow10 e = (if 0 \<le> e then 10 ^ nat e else 1 / 10 ^ nat (- e))"

definition number_value :: "number \<Rightarrow> rat" where
  "number_value n =
     (let m = of_nat (num_int n) + foldr (\<lambda>d a. (of_nat d + a) / 10) (num_frac n) 0;
          v = m * pow10 (case num_exp n of None \<Rightarrow> 0 | Some e \<Rightarrow> e)
      in if num_neg n then - v else v)"

text \<open>
  \<open>strconv.ParseInt(literal, 10, 64)\<close>: digits only, within the range of \<open>int64\<close>.
\<close>

definition ParseInt :: "number \<Rightarrow> int option" where
  "ParseInt n =
     (if num_frac n = [] \<and> num_exp n = None
      then let i = (if num_neg n then - int (num_int n) else int (num_int n))
           in if in_int64 i then Some i else None
      else None)"

text \<open>
  \<open>strconv.ParseFloat(literal, 64)\<close>: the nearest float64; a literal that rounds to an
  infinity is a range error.
\<close>

definition ParseFloat :: "number \<Rightarrow> rat option" where
  "ParseFloat n = float64_round (number_value n)"

subsection \<open>Matching object keys to struct fields\<close>

definition upper_char :: "char \<Rightarrow> char" where
  "upper_char c =
     (if 0x61 \<le> (of_char c :: nat) \<and> (of_char c :: nat) \<le> 0x7A
      then char_of ((of_char c :: nat) - 0x20) else c)"

text \<open>
  Case folding of a key: ASCII letters to upper case; U+017F (long s, bytes \<open>C5 BF\<close>)
  folds to \<open>S\<close> and U+212A (Kelvin sign, bytes \<open>E2 84 AA\<close>) to \<open>K\<close>. No other
  rune folds to an ASCII letter.
\<close>

fun fold_name :: "string \<Rightarrow> string" where
  "fold_name (a # b # c # r) =
     (if (of_char a :: nat) = 0xE2 \<and> (of_char b :: nat) = 0x84 \<and> (of_char c :: nat) = 0xAA
      then CHR ''K'' # fold_name r
      else if (of_char a :: nat) = 0xC5 \<and> (of_char b :: nat) = 0xBF
      then CHR ''S'' # fold_name (c # r)
      else upper_char a # fold_name (b # c # r))"
| "fold_name [a, b] =
     (if (of_char a :: nat) = 0xC5 \<and> (of_char b :: nat) = 0xBF then [CHR ''S'']
      else [upper_char a, upper_char b])"
| "fold_name [a] = [upper_char a]"
| "fold_name [] = []"

datatype gotype = TInt | TFloat64 | TString | TTime | TSlice gotype | TStruct "(string \<times> gotype) list"

text \<open>The field a key is stored to: the one of that name, else the first equal under folding.\<close>

definition find_field :: "(string \<times> gotype) list \<Rightarrow> string \<Rightarrow> (string \<times> gotype) option" where
  "find_field fs k =
     (case find (\<lambda>f. fst f = k) fs of
        Some f \<Rightarrow> Some f
      | None \<Rightarrow> find (\<lambda>f. fold_name (fst f) = fold_name k) fs)"

subsection \<open>Type checks of the decoder\<close>

text \<open>
  \<open>conforms tp t v\<close>: decoding the value \<open>v\<close> into a variable of type \<open>t\<close> records no
  error. \<open>null\<close> leaves any of these targets as it is; a key that matches no field is
  skipped; \<open>tp\<close> is the RFC 3339 check of \<open>time.Time\<close>, applied to the content of the
  string.
\<close>

fun conforms :: "(string \<Rightarrow> bool) \<Rightarrow> gotype \<Rightarrow> json \<Rightarrow> bool" where
  "conforms tp t JNull = True"
| "conforms tp TInt (JNum n) = (ParseInt n \<noteq> None)"
| "conforms tp TFloat64 (JNum n) = (ParseFloat n \<noteq> None)"
| "conforms tp TString (JStr s) = True"
| "conforms tp TTime (JStr s) = tp s"
| "conforms tp (TSlice t) (JArr xs) = (\<forall>x \<in> set xs. conforms tp t x)"
| "conforms tp (TStruct fs) (JObj ms) =
     (\<forall>m \<in> set ms. case find_field fs (fst m) of
                      None \<Rightarrow> True
                    | Some f \<Rightarrow> conforms tp (snd f) (snd m))"
| "conforms tp t v = False"

subsection \<open>Decoding into the program's types\<close>

datatype json_error = SyntaxError | UnmarshalTypeError

text \<open>
  The values stored to a field, in the order of the document. When the document conforms,
  each of them has the field's type and the last one stays.
\<close>

definition field_values :: "(string \<times> gotype) list \<Rightarrow> string \<Rightarrow> (string \<times> json) list \<Rightarrow> json list" where
  "field_values fs name ms =
     map snd (filter (\<lambda>m. map_option fst (find_field fs (fst m)) = Some name \<and> snd m \<noteq> JNull) ms)"

definition get_string :: "(string \<times> gotype) list \<Rightarrow> string \<Rightarrow> (string \<times> json) list \<Rightarrow> string" where
  "get_string fs name ms = (case rev (field_values fs name ms) of JStr s # _ \<Rightarrow> s | _ \<Rightarrow> [])"

definition get_int :: "(string \<times> gotype) list \<Rightarrow> string \<Rightarrow> (string \<times> json) list \<Rightarrow> int" where
  "get_int fs name ms =
     (case rev (field_values fs name ms) of
        JNum n # _ \<Rightarrow> (case ParseInt n of Some i \<Rightarrow> i | None \<Rightarrow> 0)
      | _ \<Rightarrow> 0)"

definition get_float64 :: "(string \<times> gotype) list \<Rightarrow> string \<Rightarrow> (string \<times> json) list \<Rightarrow> rat" where
  "get_float64 fs name ms =
     (case rev (field_values fs name ms) of
        JNum n # _ \<Rightarrow> (case ParseFloat n of Some x \<Rightarrow> x | None \<Rightarrow> 0)
      | _ \<Rightarrow> 0)"

definition members :: "json \<Rightarrow> (string \<times> json) list" where
  "members v = (case v of JObj ms \<Rightarrow> ms | _ \<Rightarrow> [])"

text \<open>The fields of \<open>tpError\<close>: no tags, so the names are those of the fields.\<close>

definition tpError_fields :: "(string \<times> gotype) list" where
  "tpError_fields =
     [(''Status'', TInt), (''Id'', TString), (''Code'', TString), (''Message'', TString)]"

definition decode_tpError :: "json \<Rightarrow> tpError" where
  "decode_tpError v =
     (let ms = members v in
      \<lparr>Status = get_int tpError_fields ''Status'' ms,
       Id = get_string tpError_fields ''Id'' ms,
       Code = get_string tpError_fields ''Code'' ms,
       Message = get_string tpError_fields ''Message'' ms\<rparr>)"

definition Unmarshal_tpError :: "(string \<Rightarrow> bool) \<Rightarrow> string \<Rightarrow> json_error + tpError" where
  "Unmarshal_tpError tp data =
     (case parse_json data of
        None \<Rightarrow> Inl SyntaxError
      | Some v \<Rightarrow>
          if conforms tp (TStruct tpError_fields) v then Inr (decode_tpError v)
          else Inl UnmarshalTypeError)"

text \<open>The fields of an element of \<open>tpMeasurement\<close>, under the names of their tags.\<close>

definition measurement_fields :: "(string \<times> gotype) list" where
  "measurement_fields =
     [(''conversionOffset'', TInt),
      (''deviceId'', TString),
      (''deviceTime'', TString),
      (''guid'', TString),
      (''id'', TString),
      (''payload'', TStruct [(''logIndices'', TSlice TInt)]),
      (''time'', TTime),
      (''timezoneOffset'', TInt),
      (''type'', TString),
      (''units'', TString),
      (''uploadId'', TString),
      (''value'', TFloat64),
      (''annotations'', TSlice (TStruct [(''code'', TString)])),
      (''byUser'', TString),
      (''client'', TStruct [(''name'', TString),
                            (''private'', TStruct [(''os'', TString)]),
                            (''version'', TString)]),
      (''computerTime'', TString),
      (''deviceManufacturers'', TSlice TString),
      (''deviceModel'', TString),
      (''deviceSerialNumber'', TString),
      (''deviceTags'', TSlice TString),
      (''timeProcessing'', TString),
      (''timezone'', TString),
      (''version'', TString)]"

definition decode_measurement :: "json \<Rightarrow> measurement" where
  "decode_measurement v =
     (let ms = members v; str = (\<lambda>name. get_string measurement_fields name ms) in
      \<lparr>Conversionoffset = get_int measurement_fields ''conversionOffset'' ms,
       Deviceid = str ''deviceId'',
       Devicetime = str ''deviceTime'',
       GUID = str ''guid'',
       ID = str ''id'',
       Timezoneoffset = get_int measurement_fields ''timezoneOffset'' ms,
       Type = str ''type'',
       Units = str ''units'',
       Uploadid = str ''uploadId'',
       Value = get_float64 measurement_fields ''value'' ms,
       Byuser = str ''byUser'',
       Computertime = str ''computerTime'',
       Devicemodel = str ''deviceModel'',
       Deviceserialnumber = str ''deviceSerialNumber'',
       Timeprocessing = str ''timeProcessing'',
       Timezone = str ''timezone'',
       Version = str ''version''\<rparr>)"

definition elements :: "json \<Rightarrow> json list" where
  "elements v = (case v of JArr xs \<Rightarrow> xs | _ \<Rightarrow> [])"

definition Unmarshal_tpMeasurement :: "(string \<Rightarrow> bool) \<Rightarrow> string \<Rightarrow> json_error + tpMeasurement" where
  "Unmarshal_tpMeasurement tp data =
     (case parse_json data of
        None \<Rightarrow> Inl SyntaxError
      | Some v \<Rightarrow>
          if conforms tp (TSlice (TStruct measurement_fields)) v
          then Inr (map decode_measurement (elements v))
          else Inl UnmarshalTypeError)"

subsection \<open>Decoding into \<open>map[string]interface{}\<close>\<close>

datatype goval =
    GNil
  | GBool bool
  | GFloat64 rat
  | GString string
  | GSlice "goval list"
  | GMap "(string \<times> goval) list"

text \<open>
  A Go map is kept as an association list without duplicate keys, sorted by key (the order
  in which \<open>fmt\<close> prints it). Storing a key again replaces its value.
\<close>

fun str_less :: "string \<Rightarrow> string \<Rightarrow> bool" where
  "str_less [] [] = False"
| "str_less [] (y # ys) = True"
| "str_less (x # xs) [] = False"
| "str_less (x # xs) (y # ys) =
     ((of_char x :: nat) < of_char y \<or> (x = y \<and> str_less xs ys))"

fun map_store :: "string \<Rightarrow> 'v \<Rightarrow> (string \<times> 'v) list \<Rightarrow> (string \<times> 'v) list" where
  "map_store k v [] = [(k, v)]"
| "map_store k v (e # es) =
     (if k = fst e then (k, v) # es
      else if str_less k (fst e) then (k, v) # e # es
      else e # map_store k v es)"

definition map_of_members :: "(string \<times> 'v) list \<Rightarrow> (string \<times> 'v) list" where
  "map_of_members ms = foldl (\<lambda>m e. map_store (fst e) (snd e) m) [] ms"

text \<open>
  A number that \<open>ParseFloat\<close> rejects records an error and leaves \<open>nil\<close>.
\<close>

fun to_interface :: "json \<Rightarrow> goval" where
  "to_interface JNull = GNil"
| "to_interface (JBool b) = GBool b"
| "to_interface (JNum n) = (case ParseFloat n of None \<Rightarrow> GNil | Some x \<Rightarrow> GFloat64 x)"
| "to_interface (JStr s) = GString s"
| "to_interface (JArr xs) = GSlice (map to_interface xs)"
| "to_interface (JObj ms) = GMap (map_of_members (map (\<lambda>m. (fst m, to_interface (snd m))) ms))"

text \<open>
  \<open>json.Unmarshal(data, &result)\<close> for a nil \<open>result\<close> of type
  \<open>map[string]interface{}\<close>: the map after the call. Only an object fills it; the error
  is left out, \<open>send\<close> drops it.
\<close>

definition Unmarshal_map :: "string \<Rightarrow> (string \<times> goval) list" where
  "Unmarshal_map data =
     (case parse_json data of
        Some (JObj ms) \<Rightarrow> map_of_members (map (\<lambda>m. (fst m, to_interface (snd m))) ms)
      | _ \<Rightarrow> [])"

text \<open>Indexing a map: \<open>nil\<close> for a key that is not there.\<close>

definition map_index :: "(string \<times> goval) list \<Rightarrow> string \<Rightarrow> goval" where
  "map_index m k = (case map_of m k of None \<Rightarrow> GNil | Some v \<Rightarrow> v)"

subsection \<open>fmt.Sprintf with the verb \<open>%v\<close>\<close>

fun join_sp :: "string list \<Rightarrow> string" where
  "join_sp [] = []"
| "join_sp [x] = x"
| "join_sp (x # y # r) = x @ '' '' @ join_sp (y # r)"

text \<open>The rendering of a float64 is a parameter (\<open>ff\<close>).\<close>

fun Sprintf_v :: "(rat \<Rightarrow> string) \<Rightarrow> goval \<Rightarrow> string" where
  "Sprintf_v ff GNil = ''<nil>''"
| "Sprintf_v ff (GBool b) = (if b then ''true'' else ''false'')"
| "Sprintf_v ff (GFloat64 x) = ff x"
| "Sprintf_v ff (GString s) = s"
| "Sprintf_v ff (GSlice xs) = ''['' @ join_sp (map (Sprintf_v ff) xs) @ '']''"
| "Sprintf_v ff (GMap m) =
     ''map['' @ join_sp (map (\<lambda>e. fst e @ '':'' @ Sprintf_v ff (snd e)) m) @ '']''"

section \<open>The request handler\<close>

subsection \<open>The world of one request\<close>

text \<open>The form values \<open>send\<close> reads; a value that was not posted is the empty string.\<close>

record form =
  useremail :: string
  password :: string
  startdate :: string
  enddate :: string
  datatype' :: string

text \<open>
  What \<open>send\<close> reads of an HTTP response: the status code, the status line, the value of
  the header \<open>x-tidepool-session-token\<close> (empty when absent), and the body as
  \<open>ioutil.ReadAll\<close> returns it (\<open>Inl\<close> the read error).
\<close>

record response =
  StatusCode :: int
  Status_line :: string
  session_token :: string
  Body :: "string + string"

text \<open>
  Everything outside the program: the results of the two \<open>http.DefaultClient.Do\<close> calls
  (\<open>Inl\<close> the error), the error of \<open>http.NewRequest\<close> on the data URL, of
  \<open>ioutil.WriteFile\<close>, of \<open>template.ParseFiles\<close> and of \<open>Execute\<close> on the error
  template (\<open>None\<close> for nil), the RFC 3339 check of \<open>time.Time\<close>, and the rendering of
  a float64 by \<open>%v\<close>.
\<close>

record env =
  auth_Do :: "string + response"
  NewRequest_err :: "string \<Rightarrow> string option"
  data_Do :: "string + response"
  WriteFile_err :: "string option"
  ParseFiles_err :: "string option"
  Execute_err :: "string option"
  time_ok :: "string \<Rightarrow> bool"
  fmt_float64 :: "rat \<Rightarrow> string"

text \<open>
  What the handler does that can be seen from outside, in order: the requests it sends,
  the log lines, the error page written to the browser, and the calls of the document
  renderer (\<open>CreatePDF\<close>, \<open>ShowPDF\<close>), which is not part of this development.
\<close>

datatype event =
    AuthRequest string string
  | DataRequest string string
  | ErrorPage tpError
  | LogPrintln string
  | CreatePDF "Smbg list"
  | ShowPDF string

record world =
  events :: "event list"
  files :: "string \<rightharpoonup> string"

definition emit :: "event \<Rightarrow> world \<Rightarrow> world" where
  "emit e w = w\<lparr>events := events w @ [e]\<rparr>"

text \<open>
  How a piece of the handler ends: it returns, \<open>log.Fatal\<close> stops the process (with the
  text it logs), or it panics.
\<close>

datatype 'a exec = Ret 'a | Fatal string | Panic

definition and_then :: "'a exec \<times> world \<Rightarrow> ('a \<Rightarrow> world \<Rightarrow> 'b exec \<times> world) \<Rightarrow> 'b exec \<times> world" where
  "and_then m f =
     (case m of
        (Ret x, w) \<Rightarrow> f x w
      | (Fatal msg, w) \<Rightarrow> (Fatal msg, w)
      | (Panic, w) \<Rightarrow> (Panic, w))"

subsection \<open>check\<close>

text \<open>\<open>e\<close> is the error, \<open>None\<close> for nil.\<close>

definition check :: "string option \<Rightarrow> string \<Rightarrow> world \<Rightarrow> unit exec \<times> world" where
  "check e msg w = (case e of Some err \<Rightarrow> (Fatal (msg @ err), w) | None \<Rightarrow> (Ret (), w))"

subsection \<open>Files\<close>

definition ReadFile :: "world \<Rightarrow> string \<Rightarrow> string + string" where
  "ReadFile w filename =
     (case files w filename of
        None \<Rightarrow> Inl (''open '' @ filename @ '': no such file or directory'')
      | Some data \<Rightarrow> Inr data)"

definition WriteFile :: "env \<Rightarrow> string \<Rightarrow> string \<Rightarrow> world \<Rightarrow> string option \<times> world" where
  "WriteFile E filename data w =
     (case WriteFile_err E of
        Some e \<Rightarrow> (Some e, w)
      | None \<Rightarrow> (None, w\<lparr>files := (files w)(filename \<mapsto> data)\<rparr>))"

subsection \<open>A call followed by check\<close>

definition err_of :: "string + 'a \<Rightarrow> string option" where
  "err_of r = (case r of Inl e \<Rightarrow> Some e | Inr _ \<Rightarrow> None)"

text \<open>
  \<open>v, err := f(); check(err, msg)\<close>: the value is there when the error is nil. Were
  \<open>check\<close> to return on an error, the use of the missing value would panic.
\<close>

definition checked :: "string + 'a \<Rightarrow> string \<Rightarrow> world \<Rightarrow> 'a exec \<times> world" where
  "checked r msg w =
     and_then (check (err_of r) msg w)
       (\<lambda>_ w. case r of Inl _ \<Rightarrow> (Panic, w) | Inr v \<Rightarrow> (Ret v, w))"

subsection \<open>decodeTidepoolData\<close>

text \<open>The result is the pair the function returns: the error (\<open>None\<close> for nil) and the slice.\<close>

definition decodeTidepoolData :: "env \<Rightarrow> string \<Rightarrow> world \<Rightarrow> (string option \<times> Smbg list) exec \<times> world" where
  "decodeTidepoolData E filename w =
     and_then (checked (ReadFile w filename) ''Error loading result json file'' w)
       (\<lambda>file w.
          case Unmarshal_tpMeasurement (time_ok E) file of
            Inl err \<Rightarrow> (Ret (Some ''Tidepool appears to have returned an error response'', []), w)
          | Inr result \<Rightarrow>
              (case extract_smbgs result of
                 None \<Rightarrow> (Panic, w)
               | Some smbgs \<Rightarrow> (Ret (None, smbgs), w)))"

subsection \<open>CheckTidepoolErrorResponse\<close>

text \<open>The result is the text of the error the function returns; it never returns nil.\<close>

definition CheckTidepoolErrorResponse :: "env \<Rightarrow> string \<Rightarrow> world \<Rightarrow> string exec \<times> world" where
  "CheckTidepoolErrorResponse E filename w =
     and_then (checked (ReadFile w filename) ''Error loading result json file'' w)
       (\<lambda>file w.
          case Unmarshal_tpError (time_ok E) file of
            Inl err \<Rightarrow> (Ret ''Unable to decode assumed Tidepool error response.'', w)
          | Inr tpe \<Rightarrow>
              and_then (check (ParseFiles_err E) ''Failed to parse the error message template.'' w)
                (\<lambda>_ w.
                   and_then
                     (check (Execute_err E) ''Failed to execute the error response template''
                        (if Execute_err E = None then emit (ErrorPage tpe) w else w))
                     (\<lambda>_ w. (Ret ''Displayed the Tidepool Error Page.'', w))))"

subsection \<open>send\<close>

text \<open>
  The last part of \<open>send\<close>, once the response body is saved: extract the result data, then
  the error page or the document.
\<close>

definition send_report :: "env \<Rightarrow> world \<Rightarrow> unit exec \<times> world" where
  "send_report E w =
     and_then (decodeTidepoolData E ''tidepool.json'' w)
       (\<lambda>(err, s) w.
          if err \<noteq> None
          then and_then (CheckTidepoolErrorResponse E ''tidepool.json'' w) (\<lambda>_ w. (Ret (), w))
          else
            let w = (if length s = 0
                     then emit (LogPrintln ''No results were returned from Tidepool.'') w
                     else w)
            in (Ret (), emit (ShowPDF ''tidepool.pdf'') (emit (CreatePDF s) w)))"

text \<open>
  The middle part: the data request for the account \<open>userid\<close> with the session \<open>token\<close>,
  and the saving of the body.
\<close>

definition send_data :: "env \<Rightarrow> form \<Rightarrow> string \<Rightarrow> string \<Rightarrow> world \<Rightarrow> unit exec \<times> world" where
  "send_data E r token userid w =
     (let url = ''https://int-api.tidepool.org/data/'' @ userid @ ''?type='' @ datatype' r;
          queryString = checkDateRanges (startdate r) (enddate r);
          url = (if queryString \<noteq> '''' then url @ queryString else url)
      in and_then (check (NewRequest_err E url) ''Error creating data request'' w)
           (\<lambda>_ w.
              and_then
                (checked (data_Do E) ''Error executing data request''
                   (emit (DataRequest url token) w))
                (\<lambda>resp w.
                   and_then
                     (if StatusCode resp \<noteq> 200
                      then check None
                             (''Data API call: Unexpected response status =  '' @ Status_line resp) w
                      else (Ret (), w))
                     (\<lambda>_ w.
                        and_then
                          (checked (Body resp)
                             ''Error getting the data file from response body.'' w)
                          (\<lambda>data w.
                             case WriteFile E ''tidepool.json'' data w of
                               (err, w) \<Rightarrow>
                                 and_then (check err ''Error saving the result data file'' w)
                                   (\<lambda>_ w. send_report E w))))))"

text \<open>The first part: the login, the session token and the account identifier.\<close>

definition send :: "env \<Rightarrow> form \<Rightarrow> world \<Rightarrow> unit exec \<times> world" where
  "send E r w =
     and_then
       (checked (auth_Do E) ''Error sending the auth request''
          (emit (AuthRequest (useremail r) (password r)) w))
       (\<lambda>resp w.
          and_then
            (if StatusCode resp \<noteq> 200
             then check None (''Authorization Call: Bad request response'' @ Status_line resp) w
             else (Ret (), w))
            (\<lambda>_ w.
               let token = session_token resp in
               and_then (checked (Body resp) ''Error reading the auth response body'' w)
                 (\<lambda>bytes w.
                    let result = Unmarshal_map bytes;
                        userid = Sprintf_v (fmt_float64 E) (map_index result ''userid'')
                    in send_data E r token userid w)))"

section \<open>Derived notions and sample data\<close>

text \<open>
  What the loop body appends for an element of type \<open>smbg\<close> whose device time has at
  least 19 bytes.
\<close>

definition reading :: "measurement \<Rightarrow> Smbg" where
  "reading m = \<lparr>smbgDate = take 10 (Devicetime m),
               smbgTime = take 8 (drop 11 (Devicetime m)),
               smbgValue = measvals m\<rparr>"

text \<open>The zero value of an element of \<open>tpMeasurement\<close>, and elements made from it.\<close>

definition zero_measurement :: measurement where
  "zero_measurement =
     \<lparr>Conversionoffset = 0, Deviceid = [], Devicetime = [], GUID = [], ID = [],
      Timezoneoffset = 0, Type = [], Units = [], Uploadid = [], Value = 0, Byuser = [],
      Computertime = [], Devicemodel = [], Deviceserialnumber = [], Timeprocessing = [],
      Timezone = [], Version = []\<rparr>"

definition sample :: "string \<Rightarrow> string \<Rightarrow> rat \<Rightarrow> measurement" where
  "sample ty dt v = zero_measurement\<lparr>Type := ty, Devicetime := dt, Value := v\<rparr>"

section \<open>Properties of the extraction loop\<close>

lemma smbg_of_None_iff: "smbg_of m = None \<longleftrightarrow> length (Devicetime m) < 19"
  by (auto simp: smbg_of_def slice_str_def Let_def split: option.splits)

lemma smbg_of_Some: "19 \<le> length (Devicetime m) \<Longrightarrow> smbg_of m = Some (reading m)"
  by (simp add: smbg_of_def slice_str_def Let_def reading_def)

lemma extract_loop_eq:
  "extract_loop result smbgs =
     (if \<forall>m \<in> set result. Type m = ''smbg'' \<longrightarrow> 19 \<le> length (Devicetime m)
      then Some (smbgs @ map reading (filter (\<lambda>m. Type m = ''smbg'') result))
      else None)"
proof (induction result arbitrary: smbgs)
  case Nil
  show ?case by simp
next
  case (Cons m ms)
  show ?case
  proof (cases "Type m = ''smbg''")
    case False
    then show ?thesis using Cons.IH [of smbgs] by simp
  next
    case smbg: True
    show ?thesis
    proof (cases "19 \<le> length (Devicetime m)")
      case True
      then show ?thesis
        using smbg Cons.IH [of "smbgs @ [reading m]"] by (simp add: smbg_of_Some)
    next
      case False
      then have "smbg_of m = None" by (simp add: smbg_of_None_iff)
      then show ?thesis using smbg False by simp
    qed
  qed
qed

lemma extract_smbgs_eq:
  "extract_smbgs result =
     (if \<forall>m \<in> set result. Type m = ''smbg'' \<longrightarrow> 19 \<le> length (Devicetime m)
      then Some (map reading (filter (\<lambda>m. Type m = ''smbg'') result))
      else None)"
  by (simp add: extract_smbgs_def extract_loop_eq)

lemma extract_smbgs_SomeD:
  assumes "extract_smbgs result = Some smbgs"
  shows "smbgs = map reading (filter (\<lambda>m. Type m = ''smbg'') result)"
    and "\<forall>m \<in> set result. Type m = ''smbg'' \<longrightarrow> 19 \<le> length (Devicetime m)"
  using assms by (auto simp: extract_smbgs_eq split: if_splits)

section \<open>Evaluating the float64 operations and Itoa\<close>

lemma floor_rat_numeral:
  "\<lfloor>numeral a / numeral b :: rat\<rfloor> = numeral a div numeral b"
  "\<lfloor>- (numeral a / numeral b) :: rat\<rfloor> = - numeral a div numeral b"
  using floor_divide_of_int_eq [of "numeral a" "numeral b", where ?'a = rat]
    floor_divide_of_int_eq [of "- numeral a" "numeral b", where ?'a = rat]
  by simp_all

lemma ceiling_rat_numeral:
  "\<lceil>numeral a / numeral b :: rat\<rceil> = - (- numeral a div numeral b)"
  "\<lceil>- (numeral a / numeral b) :: rat\<rceil> = - (numeral a div numeral b)"
  by (simp_all add: ceiling_def floor_rat_numeral)

lemma nbits_numeral:
  "nbits 0 = 0" "nbits (Suc 0) = 1" "nbits 1 = 1"
  "nbits (numeral k) = Suc (nbits (numeral k div 2))"
  by (subst nbits.simps, simp)+

lemmas f64_eval = float64_mul_def float64_round_def ilog2_def pow2_def round_half_even_def
  Let_def floor_rat_numeral ceiling_rat_numeral nbits_numeral trunc_rat_def in_int64_def
  int_of_float64_def

lemmas Itoa_eval = Itoa_def dec_digits.simps digit_char_def

lemmas extract_eval = extract_smbgs_eq reading_def measvals_def sample_def zero_measurement_def

text \<open>
  C5. The output of the extraction is never longer than the input; it is made, in order,
  from exactly the input elements whose type is \<open>smbg\<close> (a subsequence of the input), each
  by the loop body; the elements of any other type have no effect on the result, error
  included; and the empty input gives the empty output, not an error.
\<close>

theorem extract_smbgs_filter:
  "extract_smbgs [] = Some []
   \<and> extract_smbgs result = extract_smbgs (filter (\<lambda>m. Type m = ''smbg'') result)
   \<and> (extract_smbgs result = Some smbgs \<longrightarrow>
        length smbgs \<le> length result
        \<and> subseq (filter (\<lambda>m. Type m = ''smbg'') result) result
        \<and> map Some smbgs = map smbg_of (filter (\<lambda>m. Type m = ''smbg'') result))"
proof (intro conjI impI)
  show "extract_smbgs [] = Some []"
    by (simp add: extract_smbgs_def)
  show "extract_smbgs result = extract_smbgs (filter (\<lambda>m. Type m = ''smbg'') result)"
    by (simp add: extract_smbgs_eq)
next
  assume ok: "extract_smbgs result = Some smbgs"
  have out: "smbgs = map reading (filter (\<lambda>m. Type m = ''smbg'') result)"
    and long: "\<forall>m \<in> set result. Type m = ''smbg'' \<longrightarrow> 19 \<le> length (Devicetime m)"
    using extract_smbgs_SomeD [OF ok] by simp_all
  show "length smbgs \<le> length result"
    by (simp add: out)
  show "subseq (filter (\<lambda>m. Type m = ''smbg'') result) result"
    by simp
  show "map Some smbgs = map smbg_of (filter (\<lambda>m. Type m = ''smbg'') result)"
    using long by (simp add: out smbg_of_Some)
qed

theorem extract_smbgs_filter_witness:
  "extract_smbgs [sample ''cbg'' ''short'' 1,
                  sample ''smbg'' ''2021-03-17T08:33:00'' (11 / 2),
                  sample ''basal'' [] 0,
                  sample ''smbg'' ''2021-03-18T21:05:59.000Z'' 7]
     = Some [\<lparr>smbgDate = ''2021-03-17'', smbgTime = ''08:33:00'', smbgValue = ''99''\<rparr>,
             \<lparr>smbgDate = ''2021-03-18'', smbgTime = ''21:05:59'', smbgValue = ''126''\<rparr>]
   \<and> map Some [\<lparr>smbgDate = ''2021-03-17'', smbgTime = ''08:33:00'', smbgValue = ''99''\<rparr>,
               \<lparr>smbgDate = ''2021-03-18'', smbgTime = ''21:05:59'', smbgValue = ''126''\<rparr>]
       = map smbg_of [sample ''smbg'' ''2021-03-17T08:33:00'' (11 / 2),
                      sample ''smbg'' ''2021-03-18T21:05:59.000Z'' 7]"
proof -
  let ?input = "[sample ''cbg'' ''short'' 1,
                 sample ''smbg'' ''2021-03-17T08:33:00'' (11 / 2),
                 sample ''basal'' [] 0,
                 sample ''smbg'' ''2021-03-18T21:05:59.000Z'' 7]"
  let ?output = "[\<lparr>smbgDate = ''2021-03-17'', smbgTime = ''08:33:00'', smbgValue = ''99''\<rparr>,
                  \<lparr>smbgDate = ''2021-03-18'', smbgTime = ''21:05:59'', smbgValue = ''126''\<rparr>]"
  have run: "extract_smbgs ?input = Some ?output"
    by (simp add: extract_eval f64_eval Itoa_eval)
  have sel: "filter (\<lambda>m. Type m = ''smbg'') ?input
             = [sample ''smbg'' ''2021-03-17T08:33:00'' (11 / 2),
                sample ''smbg'' ''2021-03-18T21:05:59.000Z'' 7]"
    by (simp add: sample_def)
  from extract_smbgs_filter [of ?input ?output] run
  have "map Some ?output = map smbg_of (filter (\<lambda>m. Type m = ''smbg'') ?input)"
    by blast
  with run sel show ?thesis
    by simp
qed

text \<open>
  C7. In every reading the loop produces, the date is bytes 0 to 9 and the time is bytes
  11 to 18 of the device time of the element it was made from, whatever the other fields
  of the element (time zone offsets included) hold; the device time
  \<open>2021-03-17T08:33:00\<close> gives the date \<open>2021-03-17\<close> and the time \<open>08:33:00\<close>.
\<close>

theorem date_time_slices:
  "(extract_smbgs result = Some smbgs \<and> i < length smbgs \<longrightarrow>
      (let m = filter (\<lambda>m. Type m = ''smbg'') result ! i in
       length (smbgDate (smbgs ! i)) = 10
       \<and> (\<forall>k < 10. smbgDate (smbgs ! i) ! k = Devicetime m ! k)
       \<and> length (smbgTime (smbgs ! i)) = 8
       \<and> (\<forall>k < 8. smbgTime (smbgs ! i) ! k = Devicetime m ! (11 + k))))
   \<and> (Type m = ''smbg'' \<and> Devicetime m = ''2021-03-17T08:33:00'' \<longrightarrow>
        map_option (map (\<lambda>s. (smbgDate s, smbgTime s))) (extract_smbgs [m])
          = Some [(''2021-03-17'', ''08:33:00'')])"
proof (intro conjI impI)
  assume a: "extract_smbgs result = Some smbgs \<and> i < length smbgs"
  let ?sel = "filter (\<lambda>m. Type m = ''smbg'') result"
  have out: "smbgs = map reading ?sel"
    and long: "\<forall>m \<in> set result. Type m = ''smbg'' \<longrightarrow> 19 \<le> length (Devicetime m)"
    using a extract_smbgs_SomeD [of result smbgs] by simp_all
  have i: "i < length ?sel"
    using a out by simp
  then have "?sel ! i \<in> set ?sel"
    by (rule nth_mem)
  then have len: "19 \<le> length (Devicetime (?sel ! i))"
    using long by simp
  have at: "smbgs ! i = reading (?sel ! i)"
    using i out by simp
  show "let m = ?sel ! i in
        length (smbgDate (smbgs ! i)) = 10
        \<and> (\<forall>k < 10. smbgDate (smbgs ! i) ! k = Devicetime m ! k)
        \<and> length (smbgTime (smbgs ! i)) = 8
        \<and> (\<forall>k < 8. smbgTime (smbgs ! i) ! k = Devicetime m ! (11 + k))"
    using len by (simp add: at reading_def Let_def)
next
  assume "Type m = ''smbg'' \<and> Devicetime m = ''2021-03-17T08:33:00''"
  then show "map_option (map (\<lambda>s. (smbgDate s, smbgTime s))) (extract_smbgs [m])
               = Some [(''2021-03-17'', ''08:33:00'')]"
    by (simp add: extract_smbgs_eq reading_def)
qed

theorem date_time_slices_witness:
  "extract_smbgs [(sample ''smbg'' ''2021-03-17T08:33:00'' (11 / 2))\<lparr>Timezoneoffset := - 300\<rparr>]
     = Some [\<lparr>smbgDate = ''2021-03-17'', smbgTime = ''08:33:00'', smbgValue = ''99''\<rparr>]
   \<and> map_option (map (\<lambda>s. (smbgDate s, smbgTime s)))
        (extract_smbgs [(sample ''smbg'' ''2021-03-17T08:33:00'' (11 / 2))\<lparr>Timezoneoffset := - 300\<rparr>])
       = Some [(''2021-03-17'', ''08:33:00'')]"
proof -
  let ?m = "(sample ''smbg'' ''2021-03-17T08:33:00'' (11 / 2))\<lparr>Timezoneoffset := - 300\<rparr>"
  have run: "extract_smbgs [?m]
               = Some [\<lparr>smbgDate = ''2021-03-17'', smbgTime = ''08:33:00'', smbgValue = ''99''\<rparr>]"
    by (simp add: extract_eval f64_eval Itoa_eval)
  have hyp: "Type ?m = ''smbg'' \<and> Devicetime ?m = ''2021-03-17T08:33:00''"
    by (simp add: sample_def)
  from date_time_slices [of "[]" "[]" 0 ?m] hyp
  have "map_option (map (\<lambda>s. (smbgDate s, smbgTime s))) (extract_smbgs [?m])
          = Some [(''2021-03-17'', ''08:33:00'')]"
    by blast
  with run show ?thesis
    by blast
qed

text \<open>
  C9. The extraction panics exactly when the input holds an element of type \<open>smbg\<close>
  whose device time is shorter than 19 bytes, and for such an element one of the two
  slices is out of range; when every element of type \<open>smbg\<close> has a device time of at
  least 19 bytes, the extraction returns a result.
\<close>

theorem extract_smbgs_total_iff:
  "(extract_smbgs result = None
      \<longleftrightarrow> (\<exists>m \<in> set result. Type m = ''smbg'' \<and> length (Devicetime m) < 19))
   \<and> ((\<forall>m \<in> set result. Type m = ''smbg'' \<longrightarrow> 19 \<le> length (Devicetime m))
        \<longrightarrow> (\<exists>smbgs. extract_smbgs result = Some smbgs))
   \<and> (length (Devicetime m) < 19
        \<longleftrightarrow> slice_str (Devicetime m) 0 10 = None \<or> slice_str (Devicetime m) 11 19 = None)"
proof (intro conjI)
  show "extract_smbgs result = None
          \<longleftrightarrow> (\<exists>m \<in> set result. Type m = ''smbg'' \<and> length (Devicetime m) < 19)"
    by (auto simp: extract_smbgs_eq not_le)
  show "(\<forall>m \<in> set result. Type m = ''smbg'' \<longrightarrow> 19 \<le> length (Devicetime m))
          \<longrightarrow> (\<exists>smbgs. extract_smbgs result = Some smbgs)"
    by (simp add: extract_smbgs_eq)
  show "length (Devicetime m) < 19
          \<longleftrightarrow> slice_str (Devicetime m) 0 10 = None \<or> slice_str (Devicetime m) 11 19 = None"
    by (auto simp: slice_str_def)
qed

theorem extract_smbgs_total_iff_witness:
  "extract_smbgs [sample ''smbg'' ''2021-03-17T08:33:00'' 5, sample ''smbg'' ''2021-03-17T08:33'' 5]
     = None
   \<and> slice_str ''2021-03-17T08:33'' 0 10 = Some ''2021-03-17''
   \<and> slice_str ''2021-03-17T08:33'' 11 19 = None
   \<and> (\<exists>smbgs. extract_smbgs [sample ''smbg'' ''2021-03-17T08:33:00'' 5,
                               sample ''cbg'' ''2021-03-17T08:33'' 5] = Some smbgs)"
proof -
  let ?good = "sample ''smbg'' ''2021-03-17T08:33:00'' 5"
  let ?short = "sample ''smbg'' ''2021-03-17T08:33'' 5"
  let ?other = "sample ''cbg'' ''2021-03-17T08:33'' 5"
  have "\<exists>m \<in> set [?good, ?short]. Type m = ''smbg'' \<and> length (Devicetime m) < 19"
    by (simp add: sample_def)
  with extract_smbgs_total_iff [of "[?good, ?short]" ?short]
  have panics: "extract_smbgs [?good, ?short] = None"
    by blast
  have "\<forall>m \<in> set [?good, ?other]. Type m = ''smbg'' \<longrightarrow> 19 \<le> length (Devicetime m)"
    by (simp add: sample_def)
  with extract_smbgs_total_iff [of "[?good, ?other]" ?short]
  have returns: "\<exists>smbgs. extract_smbgs [?good, ?other] = Some smbgs"
    by blast
  have "slice_str ''2021-03-17T08:33'' 0 10 = Some ''2021-03-17''"
    and "slice_str ''2021-03-17T08:33'' 11 19 = None"
    by (simp_all add: slice_str_def)
  with panics returns show ?thesis
    by blast
qed

section \<open>Properties of checkDateRanges\<close>

text \<open>
  C8. Without bounds the query string is empty. A start bound alone gives
  \<open>&startDate=\<close>, the bound and \<open>T01:00:00.000Z\<close>, and nothing else; an end bound alone
  gives the same with \<open>&endDate=\<close>; both bounds give the start parameter followed by the
  end parameter. The start \<open>2021-01-01\<close> alone gives
  \<open>&startDate=2021-01-01T01:00:00.000Z\<close>.
\<close>

theorem checkDateRanges_cases:
  "checkDateRanges [] [] = []
   \<and> (sdate \<noteq> [] \<longrightarrow> checkDateRanges sdate [] = ''&startDate='' @ sdate @ ''T01:00:00.000Z'')
   \<and> (edate \<noteq> [] \<longrightarrow> checkDateRanges [] edate = ''&endDate='' @ edate @ ''T01:00:00.000Z'')
   \<and> (sdate \<noteq> [] \<and> edate \<noteq> [] \<longrightarrow>
        checkDateRanges sdate edate
          = (''&startDate='' @ sdate @ ''T01:00:00.000Z'') @ (''&endDate='' @ edate @ ''T01:00:00.000Z''))
   \<and> checkDateRanges ''2021-01-01'' [] = ''&startDate=2021-01-01T01:00:00.000Z''"
  by (simp add: checkDateRanges_def datetail_def)

theorem checkDateRanges_cases_witness:
  "checkDateRanges ''2021-01-01'' [] = ''&startDate=2021-01-01T01:00:00.000Z''
   \<and> checkDateRanges [] ''2021-02-28'' = ''&endDate=2021-02-28T01:00:00.000Z''
   \<and> checkDateRanges ''2021-01-01'' ''2021-02-28''
       = ''&startDate=2021-01-01T01:00:00.000Z&endDate=2021-02-28T01:00:00.000Z''"
  using checkDateRanges_cases [of "''2021-01-01''" "''2021-02-28''"] by simp

end
